theory Spec2Isabelle
  imports Main "HOL-Library.Char_ord" "HOL-Library.List_Lexorder" "HOL-Library.AList"
begin

chapter \<open>The model\<close>

section \<open>Values, errors and the built-in conversions\<close>

text \<open>
  The program is Python. The values it reads from the feed's rows and from the table's
  attributes are JSON scalars; the two kinds the code tells apart (it compares a field
  with the empty string, then converts it with \<open>int\<close> and \<open>str\<close>) are integers and
  strings. Strings are lists of bytes (UTF-8), whose lexicographic order is the order of
  Python's code points. DynamoDB numbers (\<open>decimal.Decimal\<close>) hold integers here, as the
  only numbers the code writes are counts; the precision limit of \<open>Decimal\<close> and the
  interpreter's digit limit for conversions are not modelled.
\<close>

datatype pyval = PInt int | PStr string

datatype error =
    KeyError string
  | ValueError
  | TypeError
  | NameError string
  | ClientError

text \<open>\<open>str\<close> of an integer: decimal digits, a minus sign for a negative number.\<close>

definition digit_char :: "nat \<Rightarrow> char" where
  "digit_char d = ''0123456789'' ! d"

fun str_nat :: "nat \<Rightarrow> string" where
  "str_nat n = (if n < 10 then [digit_char n] else str_nat (n div 10) @ [digit_char (n mod 10)])"

declare str_nat.simps [simp del]

definition str_int :: "int \<Rightarrow> string" where
  "str_int i = (if i < 0 then CHR ''-'' # str_nat (nat (- i)) else str_nat (nat i))"

definition py_str :: "pyval \<Rightarrow> string" where
  "py_str v = (case v of PInt i \<Rightarrow> str_int i | PStr s \<Rightarrow> s)"

text \<open>
  \<open>int\<close> of a string of ASCII characters: the whitespace around it (tab, line feed,
  vertical tab, form feed, carriage return, space) is dropped, one sign may come first,
  then decimal digits, where single underscores may stand between digits. Any other
  ASCII string raises \<open>ValueError\<close>. A string with a byte outside ASCII gets no value
  here, although \<open>int\<close> also reads the decimal digits and the whitespace of other
  scripts; the statements below about rows with a key are statements about the rows to
  which this definition gives one.
\<close>

definition is_space :: "char \<Rightarrow> bool" where
  "is_space c = (c \<in> set [CHR 0x09, CHR 0x0A, CHR 0x0B, CHR 0x0C, CHR 0x0D, CHR 0x20])"

definition strip :: "string \<Rightarrow> string" where
  "strip s = rev (dropWhile is_space (rev (dropWhile is_space s)))"

definition is_digit :: "char \<Rightarrow> bool" where
  "is_digit c = (c \<in> set ''0123456789'')"

definition digit_val :: "char \<Rightarrow> nat" where
  "digit_val c = of_char c - 48"

fun digits_ok :: "string \<Rightarrow> bool" where
  "digits_ok [] = False"
| "digits_ok [c] = is_digit c"
| "digits_ok (c # d # cs) =
     (is_digit c \<and> (if d = CHR ''_'' then digits_ok cs else digits_ok (d # cs)))"

definition digits_value :: "string \<Rightarrow> nat" where
  "digits_value s = foldl (\<lambda>a c. 10 * a + digit_val c) 0 (filter is_digit s)"

definition int_of_str :: "string \<Rightarrow> int option" where
  "int_of_str s =
     (let t = strip s;
          neg = (case t of [] \<Rightarrow> False | c # r \<Rightarrow> c = CHR ''-'');
          u = (case t of [] \<Rightarrow> [] | c # r \<Rightarrow> if c = CHR ''-'' \<or> c = CHR ''+'' then r else t)
      in if digits_ok u
         then Some (if neg then - int (digits_value u) else int (digits_value u))
         else None)"

definition py_int :: "pyval \<Rightarrow> error + int" where
  "py_int v =
     (case v of
        PInt i \<Rightarrow> Inr i
      | PStr s \<Rightarrow> (case int_of_str s of None \<Rightarrow> Inl ValueError | Some i \<Rightarrow> Inr i))"

section \<open>The key derivation\<close>

text \<open>
  \<^verbatim>\<open>
  def create_unique_ilvl_str(ilvl, item):
      if int(ilvl) <= 90:
          unique_ID = "0" + str(100 - int(ilvl)) + str(item)
      else:
          unique_ID = "00" + str(100 - int(ilvl)) + str(item)
      return unique_ID
  \<close>
\<close>

definition create_unique_ilvl_str :: "pyval \<Rightarrow> pyval \<Rightarrow> error + string" where
  "create_unique_ilvl_str ilvl item =
     (case py_int ilvl of
        Inl e \<Rightarrow> Inl e
      | Inr l \<Rightarrow>
          if l \<le> 90 then Inr (''0'' @ str_int (100 - l) @ py_str item)
          else Inr (''00'' @ str_int (100 - l) @ py_str item))"


text \<open>
  \<^verbatim>\<open>
  def url_decode(string):
      encoded_string = string
      return urllib.parse.unquote(encoded_string)
  \<close>
  \<open>urllib.parse.unquote\<close> belongs to the standard library; on a string it always returns a
  string. The model takes it as the parameter \<open>unquote\<close>, so every statement about
  \<open>url_decode\<close> holds whatever the percent-decoding does.
\<close>

definition url_decode :: "(string \<Rightarrow> string) \<Rightarrow> string \<Rightarrow> string" where
  "url_decode unquote s = unquote s"

section \<open>Aggregating one page of the feed\<close>

text \<open>
  A row of a stash is a dictionary; the code reads only \<open>row['name']\<close> and
  \<open>row['ilvl']\<close>, so a row is modelled by these two fields, each present or not. Reading
  a field that is not there raises \<open>KeyError\<close>. A page is \<open>item_list['stashes']\<close>, a list
  of stashes, and a stash is its \<open>stash['items']\<close>, a list of rows.
\<close>

record row =
  row_name :: "pyval option"
  row_ilvl :: "pyval option"

type_synonym stash = "row list"

text \<open>
  The value the aggregation keeps under a key:
  \<open>{"ilvl": level_, "item": item_, "quantity": decimal.Decimal(1)}\<close>. The result
  \<open>unique_items\<close> is a dictionary, modelled as an association list in insertion order.
\<close>

record unique_item =
  ui_ilvl :: pyval
  ui_item :: pyval
  ui_quantity :: int

type_synonym unique_items = "(string \<times> unique_item) list"

text \<open>
  \<^verbatim>\<open>
  def get_stash_quantities(item_list):
      counter = 0
      counter_unique = 0
      unique_items = {}
      for stash in item_list['stashes']:
          for row in stash['items']:
              counter += 1
              if row['name'] != '' and row['ilvl'] != '':
                  unique_ = create_unique_ilvl_str(row['ilvl'], row['name'])
                  level_ = row['ilvl']
                  item_ = row['name']
                  if unique_ in unique_items:
                      unique_items[unique_]['quantity'] += 1
                  else:
                      counter_unique += 1
                      unique_items[unique_] = {
                          "ilvl": level_, "item": item_, "quantity": decimal.Decimal(1)}
              if counter % 100 == 0:
                  print(...)
      return unique_items
  \<close>
  The two counters only feed the progress message and are left out. \<open>add_row\<close> is the
  body of the inner loop: \<open>and\<close> reads \<open>row['ilvl']\<close> only when the name is not the empty
  string.
\<close>

definition add_row :: "row \<Rightarrow> unique_items \<Rightarrow> error + unique_items" where
  "add_row r u =
     (case row_name r of
        None \<Rightarrow> Inl (KeyError ''name'')
      | Some n \<Rightarrow>
          if n = PStr [] then Inr u
          else (case row_ilvl r of
                  None \<Rightarrow> Inl (KeyError ''ilvl'')
                | Some l \<Rightarrow>
                    if l = PStr [] then Inr u
                    else (case create_unique_ilvl_str l n of
                            Inl e \<Rightarrow> Inl e
                          | Inr unique \<Rightarrow>
                              (case map_of u unique of
                                 Some e \<Rightarrow>
                                   Inr (AList.update unique
                                          (e\<lparr>ui_quantity := ui_quantity e + 1\<rparr>) u)
                               | None \<Rightarrow>
                                   Inr (AList.update unique
                                          \<lparr>ui_ilvl = l, ui_item = n, ui_quantity = 1\<rparr> u)))))"

fun add_rows :: "row list \<Rightarrow> unique_items \<Rightarrow> error + unique_items" where
  "add_rows [] u = Inr u"
| "add_rows (r # rs) u = (case add_row r u of Inl e \<Rightarrow> Inl e | Inr u' \<Rightarrow> add_rows rs u')"

fun add_stashes :: "stash list \<Rightarrow> unique_items \<Rightarrow> error + unique_items" where
  "add_stashes [] u = Inr u"
| "add_stashes (st # sts) u =
     (case add_rows st u of Inl e \<Rightarrow> Inl e | Inr u' \<Rightarrow> add_stashes sts u')"

definition get_stash_quantities :: "stash list \<Rightarrow> error + unique_items" where
  "get_stash_quantities item_list = add_stashes item_list []"

section \<open>The table\<close>

text \<open>
  The DynamoDB table is keyed by \<open>Unique_ID\<close>; an item carries the attributes the class
  names (\<open>item\<close>, \<open>ilvl\<close>, \<open>quantity\<close>), each of which may be absent, since \<open>update_item\<close>
  sets attributes one by one. The table is a list of keyed items in the order a scan
  reads them.
\<close>

record attributes =
  attr_item :: "pyval option"
  attr_ilvl :: "pyval option"
  attr_quantity :: "pyval option"

type_synonym table = "(string \<times> attributes) list"

definition no_attributes :: attributes where
  "no_attributes = \<lparr>attr_item = None, attr_ilvl = None, attr_quantity = None\<rparr>"

text \<open>
  \<open>table.update_item(Key, UpdateExpression, ...)\<close> changes the item under the key, or
  creates it from no attributes when the key is new. The update expression is the
  function \<open>upd\<close>; the result holds the old item (\<open>ReturnValues="ALL_OLD"\<close>, absent for a
  new key), the new item (\<open>"ALL_NEW"\<close>) and the table after the write. The two update
  expressions that the methods below reach follow: \<open>SET quantity = :q\<close> and
  \<open>SET quantity = quantity + :q\<close>, which the service refuses (\<open>ClientError\<close>) unless the
  item has a numeric \<open>quantity\<close>.
\<close>

definition update_item ::
  "string \<Rightarrow> (attributes \<Rightarrow> error + attributes) \<Rightarrow> table
     \<Rightarrow> error + (attributes option \<times> attributes \<times> table)" where
  "update_item k upd t =
     (case upd (case map_of t k of None \<Rightarrow> no_attributes | Some a \<Rightarrow> a) of
        Inl e \<Rightarrow> Inl e
      | Inr a' \<Rightarrow> Inr (map_of t k, a', AList.update k a' t))"

definition set_quantity :: "pyval \<Rightarrow> attributes \<Rightarrow> error + attributes" where
  "set_quantity q a = Inr (a\<lparr>attr_quantity := Some q\<rparr>)"

definition add_quantity :: "int \<Rightarrow> attributes \<Rightarrow> error + attributes" where
  "add_quantity q a =
     (case attr_quantity a of
        Some (PInt n) \<Rightarrow> Inr (a\<lparr>attr_quantity := Some (PInt (n + q))\<rparr>)
      | _ \<Rightarrow> Inl ClientError)"

text \<open>
  \<open>table.scan(...)\<close> returns one page: the items among the next \<open>Suc lim\<close> ones in scan
  order that pass the filter, and a \<open>LastEvaluatedKey\<close> when items remain. The key of the
  last item read is represented by its position; \<open>lim\<close> stands for the page size the
  service chooses.
\<close>

definition scan ::
  "nat \<Rightarrow> (attributes \<Rightarrow> bool) \<Rightarrow> table \<Rightarrow> nat option
     \<Rightarrow> (string \<times> attributes) list \<times> nat option" where
  "scan lim flt t start =
     (let pos = (case start of None \<Rightarrow> 0 | Some k \<Rightarrow> k)
      in (filter (\<lambda>(k, a). flt a) (take (Suc lim) (drop pos t)),
          if pos + Suc lim < length t then Some (pos + Suc lim) else None))"

text \<open>
  The pagination loop, shared by the methods that read the whole table:
  \<^verbatim>\<open>
  response = self.table.scan(...)
  for item in response['Items']: ...
  while 'LastEvaluatedKey' in response:
      last_key = response['LastEvaluatedKey']
      response = self.table.scan(ExclusiveStartKey=last_key, ...)
      for item in response['Items']: ...
  \<close>
  \<open>body\<close> is the \<open>for\<close> loop over one page, working on the value \<open>acc\<close> the method
  collects.
\<close>

function scan_loop ::
  "nat \<Rightarrow> (attributes \<Rightarrow> bool) \<Rightarrow> table
     \<Rightarrow> ((string \<times> attributes) list \<Rightarrow> 'a \<Rightarrow> error + 'a) \<Rightarrow> nat option \<Rightarrow> 'a \<Rightarrow> error + 'a" where
  "scan_loop lim flt t body last_evaluated acc =
     (case last_evaluated of
        None \<Rightarrow> Inr acc
      | Some last_key \<Rightarrow>
          (case body (fst (scan lim flt t (Some last_key))) acc of
             Inl e \<Rightarrow> Inl e
           | Inr acc' \<Rightarrow> scan_loop lim flt t body (snd (scan lim flt t (Some last_key))) acc'))"
  by pat_completeness auto
termination
  by (relation "measure (\<lambda>(lim, flt, t, body, last_evaluated, acc).
        case last_evaluated of None \<Rightarrow> 0 | Some k \<Rightarrow> Suc (length t - k))")
     (auto simp: scan_def split: option.splits if_splits)

declare scan_loop.simps [simp del]

definition scan_all ::
  "nat \<Rightarrow> (attributes \<Rightarrow> bool) \<Rightarrow> table
     \<Rightarrow> ((string \<times> attributes) list \<Rightarrow> 'a \<Rightarrow> error + 'a) \<Rightarrow> 'a \<Rightarrow> error + 'a" where
  "scan_all lim flt t body acc =
     (case body (fst (scan lim flt t None)) acc of
        Inl e \<Rightarrow> Inl e
      | Inr acc' \<Rightarrow> scan_loop lim flt t body (snd (scan lim flt t None)) acc')"

section \<open>Reading: find_top_quantity and get_item\<close>

text \<open>
  \<^verbatim>\<open>
  def find_top_quantity(self, number_of_items=20):
      lvl_dict = {}
      response = self.table.scan()
      for item in response['Items']:
          lvl_dict[item['Unique_ID']] = {
              'item': item['item'], 'ilvl': item['ilvl'], 'quantity': item['quantity']}
      while 'LastEvaluatedKey' in response: ...   # the same, page by page
      if len(lvl_dict) == 0:
          response = {"message": "Table is empty , please wait for maintanence"}
          return response
      sorted_lvl_dict = {k: v for k, v in sorted(lvl_dict.items(), key=lambda item: item[0])}
      counter = 0
      total = 0
      json_list = []
      for item in sorted_lvl_dict:
          if sorted_lvl_dict[item]['quantity'] > 0:
              total += int(sorted_lvl_dict[item]['quantity'])
              counter += 1
              json_list.append(sorted_lvl_dict[item])
              print(...)
          if total >= number_of_items or counter >= number_of_items:
              break
      return json_list
  \<close>
\<close>

record lvl_entry =
  lvl_item :: pyval
  lvl_ilvl :: pyval
  lvl_quantity :: pyval

type_synonym lvl_dict = "(string \<times> lvl_entry) list"

datatype top_response = Message string | JsonList "lvl_entry list"

definition read_entry :: "attributes \<Rightarrow> error + lvl_entry" where
  "read_entry a =
     (case attr_item a of
        None \<Rightarrow> Inl (KeyError ''item'')
      | Some i \<Rightarrow>
          (case attr_ilvl a of
             None \<Rightarrow> Inl (KeyError ''ilvl'')
           | Some l \<Rightarrow>
               (case attr_quantity a of
                  None \<Rightarrow> Inl (KeyError ''quantity'')
                | Some q \<Rightarrow> Inr \<lparr>lvl_item = i, lvl_ilvl = l, lvl_quantity = q\<rparr>)))"

fun add_items :: "(string \<times> attributes) list \<Rightarrow> lvl_dict \<Rightarrow> error + lvl_dict" where
  "add_items [] d = Inr d"
| "add_items ((unique, a) # items) d =
     (case read_entry a of
        Inl e \<Rightarrow> Inl e
      | Inr en \<Rightarrow> add_items items (AList.update unique en d))"

text \<open>
  The loop over the sorted dictionary. Comparing a string with \<open>0\<close> raises \<open>TypeError\<close>;
  the \<open>break\<close> is the return of the list built so far.
\<close>

fun top_loop ::
  "int \<Rightarrow> lvl_dict \<Rightarrow> int \<Rightarrow> int \<Rightarrow> lvl_entry list \<Rightarrow> error + lvl_entry list" where
  "top_loop number_of_items [] total_quantity counter json_list = Inr json_list"
| "top_loop number_of_items ((unique, en) # rest) total_quantity counter json_list =
     (case lvl_quantity en of
        PStr s \<Rightarrow> Inl TypeError
      | PInt q \<Rightarrow>
          if q > 0 then
            (if total_quantity + q \<ge> number_of_items \<or> counter + 1 \<ge> number_of_items
             then Inr (json_list @ [en])
             else top_loop number_of_items rest (total_quantity + q) (counter + 1) (json_list @ [en]))
          else
            (if total_quantity \<ge> number_of_items \<or> counter \<ge> number_of_items
             then Inr json_list
             else top_loop number_of_items rest total_quantity counter json_list))"

definition find_top_quantity :: "nat \<Rightarrow> table \<Rightarrow> int \<Rightarrow> error + top_response" where
  "find_top_quantity lim t number_of_items =
     (case scan_all lim (\<lambda>a. True) t add_items [] of
        Inl e \<Rightarrow> Inl e
      | Inr lvl_dict \<Rightarrow>
          if length lvl_dict = 0
          then Inr (Message ''Table is empty , please wait for maintanence'')
          else (case top_loop number_of_items (sort_key fst lvl_dict) 0 0 [] of
                  Inl e \<Rightarrow> Inl e
                | Inr json_list \<Rightarrow> Inr (JsonList json_list)))"

text \<open>
  \<^verbatim>\<open>
  def get_item(self, item, ilvl):
      item = url_decode(item)
      ID = create_unique_ilvl_str(ilvl, item)
      response = self.table.get_item(Key={'Unique_ID': ID})
      if "Item" in response:
          response_item = response['Item']
          return response_item
      else:
          response = {"message": "Item not in table please try an other.",
                      "item": [item, ilvl]}
          return response
  \<close>
\<close>

datatype get_response =
    Item string attributes
  | NotInTable string string pyval

definition get_item ::
  "(string \<Rightarrow> string) \<Rightarrow> table \<Rightarrow> string \<Rightarrow> pyval \<Rightarrow> error + get_response" where
  "get_item unquote t item ilvl =
     (case create_unique_ilvl_str ilvl (PStr (url_decode unquote item)) of
        Inl e \<Rightarrow> Inl e
      | Inr ID \<Rightarrow>
          (case map_of t ID of
             Some a \<Rightarrow> Inr (Item ID a)
           | None \<Rightarrow>
               Inr (NotInTable ''Item not in table please try an other.''
                      (url_decode unquote item) ilvl)))"

section \<open>Writing: update_table, upload_stash and reset_table\<close>

text \<open>
  The writing methods return nothing; the model returns the table they leave behind
  and whether they ended normally or raised.
  \<^verbatim>\<open>
  def update_table(self, unique_items):
      counter = 0
      for item in unique_items:
          counter += 1
          get_response = self.table.get_item(Key={'Unique_ID': item})
          if 'Item' in get_response:
              response = self.table.update_item(
                  Key={'Unique_ID': item},
                  UpdateExpression="SET quantity = quantity + :q",
                  ExpressionAttributeValues={
                      ":q": decimal.Decimal(unique_items[item]['quantity'])},
                  ReturnValues="ALL_NEW")
          else:
              response = self.table.update_item(
                  Key={'Unique_ID': item},
                  UpdateExpression="SET quantity = :q",
                  ExpressionAttributeValues={
                      ":q": decimal.Decimal(unique_items[item]['quantity'])},
                  ReturnValues="ALL_NEW")
          print("Item: {}, ilvl: {}, Quantity: {}.".format(
              response['Attributes']['item'],
              response['Attributes']['ilvl'],
              response['Attributes']['quantity']))
      print('Total number of writes to the table {}.'.format(counter))
  \<close>
  The keys of the dictionary \<open>unique_items\<close> are distinct, so \<open>unique_items[item]\<close> is
  the value listed with the key. The message reads \<open>item\<close>, \<open>ilvl\<close> and \<open>quantity\<close> of
  the returned attributes in this order, which is what \<open>read_entry\<close> does.
\<close>

fun update_table :: "unique_items \<Rightarrow> table \<Rightarrow> table \<times> (error + unit)" where
  "update_table [] t = (t, Inr ())"
| "update_table ((item, e) # rest) t =
     (case (if map_of t item \<noteq> None
            then update_item item (add_quantity (ui_quantity e)) t
            else update_item item (set_quantity (PInt (ui_quantity e))) t) of
        Inl err \<Rightarrow> (t, Inl err)
      | Inr (old, new, t') \<Rightarrow>
          (case read_entry new of
             Inl err \<Rightarrow> (t', Inl err)
           | Inr en \<Rightarrow> update_table rest t'))"

text \<open>
  \<^verbatim>\<open>
  def upload_stash(self, current_stash):
      counter = 0
      counter_unique = 0
      for stash in current_stash['stashes']:
          for row in stash['items']:
              counter += 1
              if row['name'] != '' and row['ilvl'] != '':
                  unique_ = create_unique_ilvl_str(row['ilvl'], row['name'])
                  get_response = self.table.get_item(Key={'Unique_ID': unique_})
                  if 'Item' in get_response:
                      continue
                  else:
                      counter_unique += 1
                      response = table.update_item(...)
                      print(...)
              if counter % 100 == 0:
                  print(...)
  \<close>
  The module defines no global \<open>table\<close> (the table is \<open>self.table\<close>), so evaluating the
  name raises \<open>NameError\<close> before any request is sent.
\<close>

definition upload_row :: "row \<Rightarrow> table \<Rightarrow> table \<times> (error + unit)" where
  "upload_row r t =
     (case row_name r of
        None \<Rightarrow> (t, Inl (KeyError ''name''))
      | Some n \<Rightarrow>
          if n = PStr [] then (t, Inr ())
          else (case row_ilvl r of
                  None \<Rightarrow> (t, Inl (KeyError ''ilvl''))
                | Some l \<Rightarrow>
                    if l = PStr [] then (t, Inr ())
                    else (case create_unique_ilvl_str l n of
                            Inl e \<Rightarrow> (t, Inl e)
                          | Inr unique \<Rightarrow>
                              (case map_of t unique of
                                 Some a \<Rightarrow> (t, Inr ())
                               | None \<Rightarrow> (t, Inl (NameError ''table''))))))"

fun upload_rows :: "row list \<Rightarrow> table \<Rightarrow> table \<times> (error + unit)" where
  "upload_rows [] t = (t, Inr ())"
| "upload_rows (r # rs) t =
     (case upload_row r t of
        (t', Inl e) \<Rightarrow> (t', Inl e)
      | (t', Inr u) \<Rightarrow> upload_rows rs t')"

fun upload_stash :: "stash list \<Rightarrow> table \<Rightarrow> table \<times> (error + unit)" where
  "upload_stash [] t = (t, Inr ())"
| "upload_stash (st # sts) t =
     (case upload_rows st t of
        (t', Inl e) \<Rightarrow> (t', Inl e)
      | (t', Inr u) \<Rightarrow> upload_stash sts t')"

text \<open>
  \<^verbatim>\<open>
  def reset_table(self):
      unique_ids = []
      counter = 0
      response = self.table.scan(
          FilterExpression="quantity > :z",
          ExpressionAttributeValues={":z": decimal.Decimal(0)})
      for unique in response['Items']:
          unique_ids.append(unique['Unique_ID'])
      while 'LastEvaluatedKey' in response: ...   # the same, page by page
      print('{} Unique_IDs found.'.format(len(unique_ids)))
      for unique in unique_ids:
          counter += 1
          response = self.table.update_item(
              Key={'Unique_ID': unique},
              UpdateExpression="SET quantity = :q",
              ExpressionAttributeValues={":q": decimal.Decimal(0)},
              ReturnValues="ALL_OLD")
          print("name: {},\t\t ilvl: {},\t quantity: {},\t unique: {}".format(
              response['Attributes']['item'],
              response['Attributes']['ilvl'],
              response['Attributes']['quantity'],
              response['Attributes']['Unique_ID']))
          if counter % 100 == 0: ...
  \<close>
  The filter passes an item whose \<open>quantity\<close> is a number above zero; an item without the
  attribute, or with a string there, does not pass. The old attributes are absent from
  the response when the key was new.
\<close>

definition quantity_positive :: "attributes \<Rightarrow> bool" where
  "quantity_positive a =
     (case attr_quantity a of Some (PInt q) \<Rightarrow> q > 0 | _ \<Rightarrow> False)"

definition append_ids :: "(string \<times> attributes) list \<Rightarrow> string list \<Rightarrow> error + string list" where
  "append_ids items unique_ids = Inr (unique_ids @ map fst items)"

fun reset_loop :: "string list \<Rightarrow> table \<Rightarrow> table \<times> (error + unit)" where
  "reset_loop [] t = (t, Inr ())"
| "reset_loop (unique # rest) t =
     (case update_item unique (set_quantity (PInt 0)) t of
        Inl e \<Rightarrow> (t, Inl e)
      | Inr (old, new, t') \<Rightarrow>
          (case old of
             None \<Rightarrow> (t', Inl (KeyError ''Attributes''))
           | Some a \<Rightarrow>
               (case read_entry a of
                  Inl e \<Rightarrow> (t', Inl e)
                | Inr en \<Rightarrow> reset_loop rest t')))"

definition reset_table :: "nat \<Rightarrow> table \<Rightarrow> table \<times> (error + unit)" where
  "reset_table lim t =
     (case scan_all lim quantity_positive t append_ids [] of
        Inl e \<Rightarrow> (t, Inl e)
      | Inr unique_ids \<Rightarrow> reset_loop unique_ids t)"

section \<open>Vocabulary of the statements\<close>

text \<open>
  The words the statements below use; none of them is part of the program.
  \<^item> \<open>row_key r\<close> is the key of a row that passes the non-empty check and whose level
    converts to an integer; other rows have none.
  \<^item> A row is \<open>readable\<close> when the loop body reads it without raising: the name is there,
    and unless the name is the empty string the level is there, and unless the level is
    the empty string it converts to an integer.
  \<^item> A row is \<open>skipped\<close> when the check rejects it: the name is the empty string, or the
    name is there and the level is the empty string.
  \<^item> A row is \<open>known\<close> to a table when it has no key or its key is in the table.
  \<^item> \<open>quantity_of u k\<close> is the quantity under the key \<open>k\<close> of the aggregate, 0 without
    an entry; \<open>occurrences k rs\<close> counts the rows of \<open>rs\<close> with the key \<open>k\<close>.
  \<^item> An item of the table is \<open>complete\<close> when it has the attributes of the data model:
    \<open>item\<close>, \<open>ilvl\<close> and a numeric \<open>quantity\<close>. A table is \<open>well_formed\<close> when its keys
    are distinct (\<open>Unique_ID\<close> is the primary key) and its items are complete.
  \<^item> An entry of the ranking is \<open>not_positive\<close> when its quantity is a number that is at
    most zero.
\<close>

definition row_key :: "row \<Rightarrow> string option" where
  "row_key r =
     (case row_name r of
        None \<Rightarrow> None
      | Some n \<Rightarrow>
          if n = PStr [] then None
          else (case row_ilvl r of
                  None \<Rightarrow> None
                | Some l \<Rightarrow>
                    if l = PStr [] then None
                    else (case create_unique_ilvl_str l n of Inl e \<Rightarrow> None | Inr k \<Rightarrow> Some k)))"

definition readable :: "row \<Rightarrow> bool" where
  "readable r =
     (case row_name r of
        None \<Rightarrow> False
      | Some n \<Rightarrow>
          n = PStr [] \<or>
          (case row_ilvl r of
             None \<Rightarrow> False
           | Some l \<Rightarrow> l = PStr [] \<or> (case py_int l of Inl e \<Rightarrow> False | Inr i \<Rightarrow> True)))"

definition skipped :: "row \<Rightarrow> bool" where
  "skipped r =
     (case row_name r of
        None \<Rightarrow> False
      | Some n \<Rightarrow> n = PStr [] \<or> row_ilvl r = Some (PStr []))"

definition known :: "table \<Rightarrow> row \<Rightarrow> bool" where
  "known t r = (case row_key r of None \<Rightarrow> True | Some k \<Rightarrow> map_of t k \<noteq> None)"

definition quantity_of :: "unique_items \<Rightarrow> string \<Rightarrow> int" where
  "quantity_of u k = (case map_of u k of None \<Rightarrow> 0 | Some e \<Rightarrow> ui_quantity e)"

definition occurrences :: "string \<Rightarrow> row list \<Rightarrow> nat" where
  "occurrences k rs = length (filter (\<lambda>r. row_key r = Some k) rs)"





chapter \<open>The proofs\<close>

section \<open>Facts about the conversions\<close>

lemma str_nat_one_digit: "n < 10 \<Longrightarrow> str_nat n = [digit_char n]"
  by (subst str_nat.simps) simp

lemma str_nat_two_digits:
  assumes "10 \<le> n" and "n < 100"
  shows "str_nat n = [digit_char (n div 10), digit_char (n mod 10)]"
proof -
  from assms have "n div 10 < 10" by simp
  then have "str_nat (n div 10) = [digit_char (n div 10)]"
    by (rule str_nat_one_digit)
  with assms show ?thesis
    by (subst str_nat.simps) simp
qed

lemma str_nat_100: "str_nat 100 = ''100''"
proof -
  have "str_nat 100 = str_nat 10 @ [digit_char 0]"
    by (subst str_nat.simps) simp
  also have "str_nat 10 = [digit_char 1, digit_char 0]"
    using str_nat_two_digits [of 10] by simp
  finally show ?thesis
    by (simp add: digit_char_def)
qed


lemma str_int_nonneg: "0 \<le> i \<Longrightarrow> str_int i = str_nat (nat i)"
  by (simp add: str_int_def)

lemma of_char_digit_char: "d < 10 \<Longrightarrow> of_char (digit_char d) = (48 + d :: nat)"
proof -
  assume "d < 10"
  then have "d \<in> {0, 1, 2, 3, 4, 5, 6, 7, 8, 9}" by auto
  then show ?thesis
    by (auto simp: digit_char_def)
qed

lemma digit_char_less_iff:
  assumes "d < 10" and "e < 10"
  shows "digit_char d < digit_char e \<longleftrightarrow> d < e"
  using assms by (simp add: less_char_def of_char_digit_char)

lemma digit_char_eq_iff:
  assumes "d < 10" and "e < 10"
  shows "digit_char d = digit_char e \<longleftrightarrow> d = e"
proof (rule iffI)
  assume "digit_char d = digit_char e"
  then have "(of_char (digit_char d) :: nat) = of_char (digit_char e)" by simp
  with assms show "d = e" by (simp add: of_char_digit_char)
next
  assume "d = e"
  then show "digit_char d = digit_char e" by simp
qed

lemma two_digits_eq:
  fixes j k :: nat
  assumes "j div 10 = k div 10" and "j mod 10 = k mod 10"
  shows "j = k"
proof -
  have "j = 10 * (j div 10) + j mod 10" by simp
  also have "\<dots> = 10 * (k div 10) + k mod 10" using assms by simp
  also have "\<dots> = k" by simp
  finally show ?thesis .
qed

lemma two_digits_less:
  fixes j k :: nat
  assumes "j < k"
  shows "j div 10 < k div 10 \<or> (j div 10 = k div 10 \<and> j mod 10 < k mod 10)"
proof (cases "j div 10 = k div 10")
  case True
  have a: "10 * (k div 10) + j mod 10 = j"
    using True [symmetric] by simp
  have b: "10 * (k div 10) + k mod 10 = k"
    by simp
  from assms have "10 * (k div 10) + j mod 10 < 10 * (k div 10) + k mod 10"
    by (simp only: a b)
  then have "j mod 10 < k mod 10"
    by (simp only: nat_add_left_cancel_less)
  with True show ?thesis by simp
next
  case False
  moreover from assms have "j div 10 \<le> k div 10"
    by (simp add: div_le_mono)
  ultimately show ?thesis by simp
qed

lemma append_less_append: "xs @ a < xs @ b \<longleftrightarrow> a < (b :: 'a :: order list)"
  by (induction xs) simp_all

section \<open>The derived key on the levels 1 to 100\<close>

text \<open>
  From level 1 to level 100 the key is \<open>0\<close>, the two decimal digits of \<open>100 - level\<close> and
  the name: a prefix of fixed width. There the derivation is injective and turns a
  higher level into a smaller key; at any one level it keeps the order of the names.
\<close>

lemma key_of_level:
  assumes "1 \<le> l" and "l \<le> 100"
  shows "create_unique_ilvl_str (PInt l) item =
           Inr ([CHR ''0'', digit_char (nat (100 - l) div 10), digit_char (nat (100 - l) mod 10)]
                @ py_str item)"
proof (cases "l \<le> 90")
  case True
  with assms have "10 \<le> nat (100 - l)" and "nat (100 - l) < 100" by simp_all
  then have "str_nat (nat (100 - l)) =
      [digit_char (nat (100 - l) div 10), digit_char (nat (100 - l) mod 10)]"
    by (rule str_nat_two_digits)
  moreover from assms have "str_int (100 - l) = str_nat (nat (100 - l))"
    by (simp add: str_int_nonneg)
  ultimately have "str_int (100 - l) =
      [digit_char (nat (100 - l) div 10), digit_char (nat (100 - l) mod 10)]"
    by (simp only:)
  with True show ?thesis
    by (simp add: create_unique_ilvl_str_def py_int_def)
next
  case False
  with assms have k: "nat (100 - l) < 10" by simp
  then have "str_nat (nat (100 - l)) = [digit_char (nat (100 - l))]"
    by (rule str_nat_one_digit)
  moreover from assms have "str_int (100 - l) = str_nat (nat (100 - l))"
    by (simp add: str_int_nonneg)
  moreover from k have "nat (100 - l) div 10 = 0" "nat (100 - l) mod 10 = nat (100 - l)"
    by simp_all
  moreover have "digit_char 0 = CHR ''0''"
    by (simp add: digit_char_def)
  ultimately have "str_int (100 - l) = [digit_char (nat (100 - l) mod 10)]"
    "digit_char (nat (100 - l) div 10) = CHR ''0''"
    by (simp_all only:)
  with False show ?thesis
    by (simp add: create_unique_ilvl_str_def py_int_def)
qed

lemma create_unique_ilvl_str_inj_from_1:
  assumes "1 \<le> l1" "l1 \<le> 100" "1 \<le> l2" "l2 \<le> 100"
  shows "create_unique_ilvl_str (PInt l1) (PStr n1) = create_unique_ilvl_str (PInt l2) (PStr n2)
         \<longleftrightarrow> l1 = l2 \<and> n1 = n2"
proof (rule iffI)
  let ?j = "nat (100 - l1)" and ?k = "nat (100 - l2)"
  assume "create_unique_ilvl_str (PInt l1) (PStr n1) = create_unique_ilvl_str (PInt l2) (PStr n2)"
  with assms have e: "digit_char (?j div 10) = digit_char (?k div 10)"
      "digit_char (?j mod 10) = digit_char (?k mod 10)" "n1 = n2"
    by (simp_all add: key_of_level py_str_def)
  from assms have "?j div 10 < 10" "?k div 10 < 10" "?j mod 10 < 10" "?k mod 10 < 10"
    by simp_all
  with e have "?j div 10 = ?k div 10" "?j mod 10 = ?k mod 10"
    by (simp_all add: digit_char_eq_iff)
  then have "?j = ?k" by (rule two_digits_eq)
  with assms have "l1 = l2" by simp
  with e show "l1 = l2 \<and> n1 = n2" by simp
next
  assume "l1 = l2 \<and> n1 = n2"
  then show "create_unique_ilvl_str (PInt l1) (PStr n1) = create_unique_ilvl_str (PInt l2) (PStr n2)"
    by simp
qed

lemma create_unique_ilvl_str_order_from_1:
  assumes "1 \<le> l2" "l2 < l1" "l1 \<le> 100"
    and "create_unique_ilvl_str (PInt l1) (PStr n1) = Inr k1"
    and "create_unique_ilvl_str (PInt l2) (PStr n2) = Inr k2"
  shows "k1 < k2"
proof -
  let ?j = "nat (100 - l1)" and ?k = "nat (100 - l2)"
  from assms have lt: "?j < ?k" by simp
  from assms have b: "?j div 10 < 10" "?k div 10 < 10" "?j mod 10 < 10" "?k mod 10 < 10"
    by simp_all
  from lt have "?j div 10 < ?k div 10 \<or> (?j div 10 = ?k div 10 \<and> ?j mod 10 < ?k mod 10)"
    by (rule two_digits_less)
  with b have "digit_char (?j div 10) < digit_char (?k div 10)
     \<or> (digit_char (?j div 10) = digit_char (?k div 10)
          \<and> digit_char (?j mod 10) < digit_char (?k mod 10))"
    by (simp add: digit_char_less_iff digit_char_eq_iff)
  then have "[digit_char (?j div 10), digit_char (?j mod 10)] @ n1
             < [digit_char (?k div 10), digit_char (?k mod 10)] @ n2"
    by auto
  moreover from assms have "k1 = [CHR ''0'', digit_char (?j div 10), digit_char (?j mod 10)] @ n1"
    "k2 = [CHR ''0'', digit_char (?k div 10), digit_char (?k mod 10)] @ n2"
    by (simp_all add: key_of_level py_str_def)
  ultimately show ?thesis by simp
qed

lemma create_unique_ilvl_str_order_name:
  assumes "n1 < n2"
    and "create_unique_ilvl_str (PInt l) (PStr n1) = Inr k1"
    and "create_unique_ilvl_str (PInt l) (PStr n2) = Inr k2"
  shows "k1 < k2"
proof (cases "l \<le> 90")
  case True
  with assms(2,3) have "k1 = (''0'' @ str_int (100 - l)) @ n1" "k2 = (''0'' @ str_int (100 - l)) @ n2"
    by (simp_all add: create_unique_ilvl_str_def py_int_def py_str_def)
  with assms(1) show ?thesis by (simp only: append_less_append)
next
  case False
  with assms(2,3) have "k1 = (''00'' @ str_int (100 - l)) @ n1" "k2 = (''00'' @ str_int (100 - l)) @ n2"
    by (simp_all add: create_unique_ilvl_str_def py_int_def py_str_def)
  with assms(1) show ?thesis by (simp only: append_less_append)
qed

section \<open>Level 0 leaves the fixed width\<close>

text \<open>
  At level 0 the number \<open>100 - level\<close> has three digits, so the key starts with \<open>0100\<close>:
  the same four characters as the key of level 90 with a name that starts with \<open>0\<close>.
\<close>

lemma key_of_level_0: "create_unique_ilvl_str (PInt 0) (PStr n) = Inr (''0100'' @ n)"
  by (simp add: create_unique_ilvl_str_def py_int_def py_str_def str_int_def str_nat_100)

lemma key_of_level_90: "create_unique_ilvl_str (PInt 90) (PStr n) = Inr (''010'' @ n)"
  using key_of_level [of 90 "PStr n"] by (simp add: py_str_def digit_char_def)

lemma key_of_level_50: "create_unique_ilvl_str (PInt 50) (PStr n) = Inr (''050'' @ n)"
  using key_of_level [of 50 "PStr n"] by (simp add: py_str_def digit_char_def)

text \<open>
  C1. The claim is that the derivation is injective on the levels 0 to 100 and non-empty
  names. The code gives level 0 with the name \<open>x\<close> and level 90 with the name \<open>0x\<close> the
  same key \<open>0100x\<close>.
\<close>

theorem create_unique_ilvl_str_collision:
  "create_unique_ilvl_str (PInt 0) (PStr ''x'') = Inr ''0100x''
   \<and> create_unique_ilvl_str (PInt 90) (PStr ''0x'') = Inr ''0100x''"
  by (simp add: key_of_level_0 key_of_level_90)

text \<open>
  C3. The claim is that a higher level always gives a smaller key on the levels 0 to 100.
  The code gives level 50 the key \<open>050Sword\<close> and level 0 the key \<open>0100Sword\<close>, which is
  the smaller of the two although its level is the lower one.
\<close>

theorem create_unique_ilvl_str_level_0_sorts_early:
  "create_unique_ilvl_str (PInt 50) (PStr ''Sword'') = Inr ''050Sword''
   \<and> create_unique_ilvl_str (PInt 0) (PStr ''Sword'') = Inr ''0100Sword''
   \<and> ''0100Sword'' < ''050Sword''"
  by (simp add: key_of_level_0 key_of_level_50)

section \<open>The derivation follows its two branches\<close>

lemma key_Sword_85: "create_unique_ilvl_str (PInt 85) (PStr ''Sword'') = Inr ''015Sword''"
  using key_of_level [of 85 "PStr ''Sword''"] by (simp add: py_str_def digit_char_def)

lemma key_Sword_95: "create_unique_ilvl_str (PInt 95) (PStr ''Sword'') = Inr ''005Sword''"
  using key_of_level [of 95 "PStr ''Sword''"] by (simp add: py_str_def digit_char_def)

text \<open>
  C5. On an integer level and a name the derived key is \<open>"0" + str(100 - level) + name\<close>
  when the level is at most 90 and \<open>"00" + str(100 - level) + name\<close> otherwise; level 85
  and the name Sword give \<open>015Sword\<close>, level 95 gives \<open>005Sword\<close>.
\<close>

theorem create_unique_ilvl_str_two_branches:
  "create_unique_ilvl_str (PInt l) (PStr n) =
     Inr (if l \<le> 90 then ''0'' @ str_int (100 - l) @ n else ''00'' @ str_int (100 - l) @ n)
   \<and> create_unique_ilvl_str (PInt 85) (PStr ''Sword'') = Inr ''015Sword''
   \<and> create_unique_ilvl_str (PInt 95) (PStr ''Sword'') = Inr ''005Sword''"
  by (simp add: key_Sword_85 key_Sword_95) (simp add: create_unique_ilvl_str_def py_int_def py_str_def)

section \<open>Aggregation\<close>

lemma add_row_skipped: "skipped r \<Longrightarrow> add_row r u = Inr u"
  by (auto simp: skipped_def add_row_def split: option.splits)

lemma add_row_no_key:
  assumes "readable r" and "row_key r = None"
  shows "add_row r u = Inr u"
  using assms
  by (auto simp: row_key_def readable_def add_row_def create_unique_ilvl_str_def
           split: option.splits if_splits sum.splits)

lemma add_row_key:
  assumes "row_key r = Some k"
  shows "\<exists>e. add_row r u = Inr (AList.update k e u) \<and> ui_quantity e = quantity_of u k + 1"
  using assms
  by (auto simp: row_key_def add_row_def quantity_of_def
           split: option.splits if_splits sum.splits)

lemma add_row_readable:
  assumes "readable r"
  shows "\<exists>u'. add_row r u = Inr u'
           \<and> (distinct (map fst u) \<longrightarrow> distinct (map fst u'))
           \<and> fst ` set u' = fst ` set u \<union> {k. row_key r = Some k}
           \<and> (\<forall>k. quantity_of u' k = quantity_of u k + (if row_key r = Some k then 1 else 0))"
proof (cases "row_key r")
  case None
  with assms show ?thesis
    by (simp add: add_row_no_key)
next
  case (Some k)
  from add_row_key [OF Some, of u] obtain e where e:
    "add_row r u = Inr (AList.update k e u)" "ui_quantity e = quantity_of u k + 1"
    by blast
  have "quantity_of (AList.update k e u) k' = quantity_of u k' + (if k' = k then 1 else 0)" for k'
    using e(2) by (simp add: quantity_of_def AList.update_conv')
  with Some e(1) show ?thesis
    by (auto simp: AList.distinct_update AList.dom_update)
qed

lemma add_rows_append:
  "add_rows (xs @ ys) u = (case add_rows xs u of Inl e \<Rightarrow> Inl e | Inr u' \<Rightarrow> add_rows ys u')"
  by (induction xs arbitrary: u) (simp_all split: sum.splits)

lemma add_stashes_concat: "add_stashes sts u = add_rows (concat sts) u"
  by (induction sts arbitrary: u) (simp_all add: add_rows_append split: sum.splits)

lemma add_rows_filter_skipped: "add_rows (filter (\<lambda>r. \<not> skipped r) rs) u = add_rows rs u"
  by (induction rs arbitrary: u) (simp_all add: add_row_skipped split: sum.splits)

lemma add_rows_all_skipped: "list_all skipped rs \<Longrightarrow> add_rows rs u = Inr u"
  by (induction rs) (simp_all add: add_row_skipped)

text \<open>
  The loop invariant: each readable row leaves the keys distinct, adds its key (when it
  has one) to the keys of the aggregate and one to the quantity under that key.
\<close>

lemma add_rows_invariant:
  assumes "list_all readable rs" and "distinct (map fst u)"
  shows "\<exists>u'. add_rows rs u = Inr u'
           \<and> distinct (map fst u')
           \<and> fst ` set u' = fst ` set u \<union> {k. \<exists>r\<in>set rs. row_key r = Some k}
           \<and> (\<forall>k. quantity_of u' k = quantity_of u k + int (occurrences k rs))"
  using assms
proof (induction rs arbitrary: u)
  case Nil
  then show ?case by (simp add: occurrences_def)
next
  case (Cons r rs)
  then have r: "readable r" and rs: "list_all readable rs" by simp_all
  from add_row_readable [OF r, of u] Cons.prems(2) obtain u1 where u1:
    "add_row r u = Inr u1" "distinct (map fst u1)"
    "fst ` set u1 = fst ` set u \<union> {k. row_key r = Some k}"
    "\<forall>k. quantity_of u1 k = quantity_of u k + (if row_key r = Some k then 1 else 0)"
    by blast
  from Cons.IH [OF rs u1(2)] obtain u' where u':
    "add_rows rs u1 = Inr u'" "distinct (map fst u')"
    "fst ` set u' = fst ` set u1 \<union> {k. \<exists>r\<in>set rs. row_key r = Some k}"
    "\<forall>k. quantity_of u' k = quantity_of u1 k + int (occurrences k rs)"
    by blast
  have "add_rows (r # rs) u = Inr u'"
    using u1(1) u'(1) by simp
  moreover have "fst ` set u' = fst ` set u \<union> {k. \<exists>x\<in>set (r # rs). row_key x = Some k}"
    using u'(3) u1(3) by auto
  moreover have "quantity_of u' k = quantity_of u k + int (occurrences k (r # rs))" for k
    using u'(4) u1(4) by (simp add: occurrences_def)
  ultimately show ?case
    using u'(2) by blast
qed

lemma quantity_of_entry:
  assumes "distinct (map fst u)" and "(k, e) \<in> set u"
  shows "quantity_of u k = ui_quantity e"
  using assms by (simp add: quantity_of_def)

lemma row_key_Sword_85:
  "row_key \<lparr>row_name = Some (PStr ''Sword''), row_ilvl = Some (PInt 85)\<rparr> = Some ''015Sword''"
  by (simp add: row_key_def key_Sword_85)

lemma row_key_Sword_95:
  "row_key \<lparr>row_name = Some (PStr ''Sword''), row_ilvl = Some (PInt 95)\<rparr> = Some ''005Sword''"
  by (simp add: row_key_def key_Sword_95)

lemma row_key_no_name: "row_key \<lparr>row_name = Some (PStr []), row_ilvl = l\<rparr> = None"
  by (simp add: row_key_def)

text \<open>
  C4, as the code has it. On a page whose rows are all readable the aggregation returns
  a mapping with exactly one entry for each key that some row of the page has, and the
  quantity of an entry is the number of rows of the page with its key. On other pages no
  mapping is produced, see the counterexample below.
\<close>

theorem get_stash_quantities_counts:
  assumes "list_all readable (concat item_list)"
  shows "\<exists>u. get_stash_quantities item_list = Inr u
           \<and> distinct (map fst u)
           \<and> fst ` set u = {k. \<exists>r\<in>set (concat item_list). row_key r = Some k}
           \<and> (\<forall>(k, e)\<in>set u. ui_quantity e = int (occurrences k (concat item_list)))"
proof -
  from add_rows_invariant [OF assms, of "[]"] obtain u where u:
    "add_rows (concat item_list) [] = Inr u" "distinct (map fst u)"
    "fst ` set u = {k. \<exists>r\<in>set (concat item_list). row_key r = Some k}"
    "\<forall>k. quantity_of u k = int (occurrences k (concat item_list))"
    by (auto simp: quantity_of_def)
  have "ui_quantity e = int (occurrences k (concat item_list))" if "(k, e) \<in> set u" for k e
    using quantity_of_entry [OF u(2) that] u(4) by simp
  with u(1-3) show ?thesis
    by (auto simp: get_stash_quantities_def add_stashes_concat)
qed

text \<open>
  Three rows named Sword of level 85, with a row of empty name between them, give the
  single entry \<open>015Sword\<close> with quantity 3.
\<close>

theorem get_stash_quantities_counts_witness:
  "list_all readable (concat
     [[\<lparr>row_name = Some (PStr ''Sword''), row_ilvl = Some (PInt 85)\<rparr>,
       \<lparr>row_name = Some (PStr []), row_ilvl = None\<rparr>],
      [\<lparr>row_name = Some (PStr ''Sword''), row_ilvl = Some (PInt 85)\<rparr>,
       \<lparr>row_name = Some (PStr ''Sword''), row_ilvl = Some (PInt 85)\<rparr>]])
   \<and> (\<exists>u. get_stash_quantities
         [[\<lparr>row_name = Some (PStr ''Sword''), row_ilvl = Some (PInt 85)\<rparr>,
           \<lparr>row_name = Some (PStr []), row_ilvl = None\<rparr>],
          [\<lparr>row_name = Some (PStr ''Sword''), row_ilvl = Some (PInt 85)\<rparr>,
           \<lparr>row_name = Some (PStr ''Sword''), row_ilvl = Some (PInt 85)\<rparr>]] = Inr u
        \<and> distinct (map fst u)
        \<and> fst ` set u = {''015Sword''}
        \<and> (\<forall>(k, e)\<in>set u. ui_quantity e = 3))"
proof -
  let ?sword = "\<lparr>row_name = Some (PStr ''Sword''), row_ilvl = Some (PInt 85)\<rparr>"
  let ?empty = "\<lparr>row_name = Some (PStr []), row_ilvl = None\<rparr>"
  let ?page = "[[?sword, ?empty], [?sword, ?sword]]"
  have r: "list_all readable (concat ?page)"
    by (simp add: readable_def py_int_def)
  have keys: "{k. \<exists>r\<in>set (concat ?page). row_key r = Some k} = {''015Sword''}"
    by (auto simp: row_key_Sword_85 row_key_no_name)
  have occ: "occurrences ''015Sword'' (concat ?page) = 3"
    by (simp add: occurrences_def row_key_Sword_85 row_key_no_name)
  from get_stash_quantities_counts [OF r] obtain u where u:
    "get_stash_quantities ?page = Inr u" "distinct (map fst u)"
    "fst ` set u = {k. \<exists>r\<in>set (concat ?page). row_key r = Some k}"
    "\<forall>(k, e)\<in>set u. ui_quantity e = int (occurrences k (concat ?page))"
    by blast
  have "ui_quantity e = 3" if "(k, e) \<in> set u" for k e
  proof -
    from that have "k \<in> fst ` set u" by force
    with u(3) keys have "k = ''015Sword''" by simp
    with u(4) that occ show ?thesis by auto
  qed
  with r u(1,2,3) keys show ?thesis
    by (metis (mono_tags, lifting) case_prodI2)
qed

lemma get_stash_quantities_three_swords:
  "get_stash_quantities
     [[\<lparr>row_name = Some (PStr ''Sword''), row_ilvl = Some (PInt 85)\<rparr>,
       \<lparr>row_name = Some (PStr ''Sword''), row_ilvl = Some (PInt 85)\<rparr>,
       \<lparr>row_name = Some (PStr ''Sword''), row_ilvl = Some (PInt 85)\<rparr>]]
     = Inr [(''015Sword'', \<lparr>ui_ilvl = PInt 85, ui_item = PStr ''Sword'', ui_quantity = 3\<rparr>)]"
  by (simp add: get_stash_quantities_def add_row_def key_Sword_85)

text \<open>
  C4, as the claim has it, fails: the claim speaks of every page, and on a page with a
  Sword of level 85 and then an Axe without an \<open>ilvl\<close> field the aggregation raises
  \<open>KeyError\<close> and produces no mapping, although the Sword has passed the check.
\<close>

theorem get_stash_quantities_unreadable_row:
  "get_stash_quantities
     [[\<lparr>row_name = Some (PStr ''Sword''), row_ilvl = Some (PInt 85)\<rparr>,
       \<lparr>row_name = Some (PStr ''Axe''), row_ilvl = None\<rparr>]]
     = Inl (KeyError ''ilvl'')"
  by (simp add: get_stash_quantities_def add_row_def key_Sword_85)

text \<open>
  C6, as the code has it. Rows whose name is the empty string, and rows with a name
  whose level is the empty string, are skipped: taking them out of a page changes neither
  the mapping nor whether the aggregation raises, and a page of such rows only gives the
  empty mapping. A missing level is not skipped, see the counterexample below.
\<close>

theorem get_stash_quantities_skips:
  "get_stash_quantities (map (filter (\<lambda>r. \<not> skipped r)) item_list)
     = get_stash_quantities item_list
   \<and> (list_all skipped (concat item_list) \<longrightarrow> get_stash_quantities item_list = Inr [])"
proof -
  have "concat (map (filter (\<lambda>r. \<not> skipped r)) item_list)
          = filter (\<lambda>r. \<not> skipped r) (concat item_list)"
    by (simp add: filter_concat)
  then show ?thesis
    by (simp add: get_stash_quantities_def add_stashes_concat add_rows_filter_skipped
          add_rows_all_skipped)
qed

theorem get_stash_quantities_skips_witness:
  "get_stash_quantities
     [[\<lparr>row_name = Some (PStr ''Sword''), row_ilvl = Some (PInt 85)\<rparr>]]
   = get_stash_quantities
     [[\<lparr>row_name = Some (PStr []), row_ilvl = None\<rparr>,
       \<lparr>row_name = Some (PStr ''Sword''), row_ilvl = Some (PInt 85)\<rparr>,
       \<lparr>row_name = Some (PStr ''Axe''), row_ilvl = Some (PStr [])\<rparr>]]
   \<and> get_stash_quantities
     [[\<lparr>row_name = Some (PStr []), row_ilvl = None\<rparr>,
       \<lparr>row_name = Some (PStr ''Axe''), row_ilvl = Some (PStr [])\<rparr>]] = Inr []"
  using get_stash_quantities_skips
          [of "[[\<lparr>row_name = Some (PStr []), row_ilvl = None\<rparr>,
                 \<lparr>row_name = Some (PStr ''Sword''), row_ilvl = Some (PInt 85)\<rparr>,
                 \<lparr>row_name = Some (PStr ''Axe''), row_ilvl = Some (PStr [])\<rparr>]]"]
        get_stash_quantities_skips
          [of "[[\<lparr>row_name = Some (PStr []), row_ilvl = None\<rparr>,
                 \<lparr>row_name = Some (PStr ''Axe''), row_ilvl = Some (PStr [])\<rparr>]]"]
  by (simp add: skipped_def)

lemma add_row_missing_ilvl:
  assumes "row_name r = Some n" and "n \<noteq> PStr []" and "row_ilvl r = None"
  shows "add_row r u = Inl (KeyError ''ilvl'')"
  using assms by (simp add: add_row_def)

text \<open>
  C6, as the claim has it, fails: a row with a name and no \<open>ilvl\<close> field is not skipped,
  reading \<open>row['ilvl']\<close> raises \<open>KeyError\<close>.
\<close>

theorem get_stash_quantities_missing_ilvl:
  "get_stash_quantities [[\<lparr>row_name = Some (PStr ''Sword''), row_ilvl = None\<rparr>]]
     = Inl (KeyError ''ilvl'')"
  by (simp add: get_stash_quantities_def add_row_def)

section \<open>upload_stash\<close>

lemma upload_row_table: "fst (upload_row r t) = t"
  by (simp add: upload_row_def split: option.splits sum.splits)

lemma upload_row_new:
  assumes "row_key r = Some k" and "map_of t k = None"
  shows "upload_row r t = (t, Inl (NameError ''table''))"
  using assms
  by (auto simp: row_key_def upload_row_def split: option.splits if_splits sum.splits)

lemma upload_row_passed:
  assumes "readable r" and "known t r"
  shows "upload_row r t = (t, Inr ())"
proof (cases "row_key r")
  case None
  with assms(1) show ?thesis
    by (auto simp: row_key_def readable_def upload_row_def create_unique_ilvl_str_def
             split: option.splits if_splits sum.splits)
next
  case (Some k)
  with assms(2) obtain a where "map_of t k = Some a"
    by (auto simp: known_def)
  with Some show ?thesis
    by (auto simp: row_key_def upload_row_def split: option.splits if_splits sum.splits)
qed

lemma upload_rows_table: "fst (upload_rows rs t) = t"
proof (induction rs)
  case Nil
  show ?case by simp
next
  case (Cons r rs)
  obtain res where "upload_row r t = (t, res)"
    using upload_row_table [of r t] by (cases "upload_row r t") simp
  with Cons show ?case
    by (cases res) simp_all
qed

lemma upload_rows_append:
  "upload_rows (xs @ ys) t =
     (case snd (upload_rows xs t) of Inl e \<Rightarrow> (t, Inl e) | Inr u \<Rightarrow> upload_rows ys t)"
proof (induction xs)
  case Nil
  show ?case by simp
next
  case (Cons r xs)
  obtain res where r: "upload_row r t = (t, res)"
    using upload_row_table [of r t] by (cases "upload_row r t") simp
  with Cons show ?case
    by (cases res) simp_all
qed

lemma upload_stash_concat: "upload_stash sts t = upload_rows (concat sts) t"
proof (induction sts)
  case Nil
  show ?case by simp
next
  case (Cons st sts)
  obtain res where r: "upload_rows st t = (t, res)"
    using upload_rows_table [of st t] by (cases "upload_rows st t") simp
  with Cons show ?case
    by (cases res) (simp_all add: upload_rows_append)
qed

lemma upload_rows_passed:
  assumes "list_all (\<lambda>r. readable r \<and> known t r) rs"
  shows "upload_rows rs t = (t, Inr ())"
  using assms by (induction rs) (simp_all add: upload_row_passed)

text \<open>
  C10, as the code has it. \<open>upload_stash\<close> never changes the table. When the rows of the page, in order,
  are rows that are readable and known to the table, then a row with a key that is not in
  the table, then any rows, the method raises \<open>NameError\<close> for the name \<open>table\<close> at that
  row. When every row is readable and known, the method ends normally, having written
  nothing.
\<close>

theorem upload_stash_NameError:
  "fst (upload_stash current_stash t) = t
   \<and> (\<forall>before r after unique.
        concat current_stash = before @ r # after
        \<and> list_all (\<lambda>r. readable r \<and> known t r) before
        \<and> row_key r = Some unique \<and> map_of t unique = None
        \<longrightarrow> upload_stash current_stash t = (t, Inl (NameError ''table'')))
   \<and> (list_all (\<lambda>r. readable r \<and> known t r) (concat current_stash)
        \<longrightarrow> upload_stash current_stash t = (t, Inr ()))"
proof (intro conjI allI impI)
  show "fst (upload_stash current_stash t) = t"
    by (simp add: upload_stash_concat upload_rows_table)
next
  fix before r after unique
  assume a: "concat current_stash = before @ r # after
        \<and> list_all (\<lambda>r. readable r \<and> known t r) before
        \<and> row_key r = Some unique \<and> map_of t unique = None"
  then have "upload_rows (r # after) t = (t, Inl (NameError ''table''))"
    by (simp add: upload_row_new)
  with a show "upload_stash current_stash t = (t, Inl (NameError ''table''))"
    by (simp add: upload_stash_concat upload_rows_append upload_rows_passed)
next
  assume "list_all (\<lambda>r. readable r \<and> known t r) (concat current_stash)"
  then show "upload_stash current_stash t = (t, Inr ())"
    by (simp add: upload_stash_concat upload_rows_passed)
qed

text \<open>
  The table holds \<open>015Sword\<close>. The page has a Sword of level 85 (known), a row of empty
  name (skipped) and then a Sword of level 95, whose key \<open>005Sword\<close> is new.
\<close>

theorem upload_stash_NameError_witness:
  "upload_stash
     [[\<lparr>row_name = Some (PStr ''Sword''), row_ilvl = Some (PInt 85)\<rparr>,
       \<lparr>row_name = Some (PStr []), row_ilvl = None\<rparr>],
      [\<lparr>row_name = Some (PStr ''Sword''), row_ilvl = Some (PInt 95)\<rparr>,
       \<lparr>row_name = Some (PStr ''Sword''), row_ilvl = Some (PInt 85)\<rparr>]]
     [(''015Sword'', \<lparr>attr_item = Some (PStr ''Sword''), attr_ilvl = Some (PInt 85),
                       attr_quantity = Some (PInt 0)\<rparr>)]
   = ([(''015Sword'', \<lparr>attr_item = Some (PStr ''Sword''), attr_ilvl = Some (PInt 85),
                        attr_quantity = Some (PInt 0)\<rparr>)],
      Inl (NameError ''table''))"
proof -
  let ?s85 = "\<lparr>row_name = Some (PStr ''Sword''), row_ilvl = Some (PInt 85)\<rparr>"
  let ?s95 = "\<lparr>row_name = Some (PStr ''Sword''), row_ilvl = Some (PInt 95)\<rparr>"
  let ?empty = "\<lparr>row_name = Some (PStr []), row_ilvl = None\<rparr>"
  let ?t = "[(''015Sword'', \<lparr>attr_item = Some (PStr ''Sword''), attr_ilvl = Some (PInt 85),
                               attr_quantity = Some (PInt 0)\<rparr>)]"
  have "concat [[?s85, ?empty], [?s95, ?s85]] = [?s85, ?empty] @ ?s95 # [?s85]
        \<and> list_all (\<lambda>r. readable r \<and> known ?t r) [?s85, ?empty]
        \<and> row_key ?s95 = Some ''005Sword'' \<and> map_of ?t ''005Sword'' = None"
    by (simp add: readable_def known_def py_int_def row_key_Sword_85 row_key_Sword_95
          row_key_no_name)
  with upload_stash_NameError [of "[[?s85, ?empty], [?s95, ?s85]]" ?t]
  show ?thesis by blast
qed

text \<open>
  C10, as the claim has it, fails: the claim speaks of every page with a row whose key is
  new. Here the Sword of level 95 has the new key \<open>005Sword\<close>, but the Axe before it has
  a name and no \<open>ilvl\<close> field, so reading \<open>row['ilvl']\<close> raises \<open>KeyError\<close> and the
  \<open>NameError\<close> is never reached.
\<close>

theorem upload_stash_KeyError_first:
  "row_key \<lparr>row_name = Some (PStr ''Sword''), row_ilvl = Some (PInt 95)\<rparr> = Some ''005Sword''
   \<and> map_of [(''015Sword'', \<lparr>attr_item = Some (PStr ''Sword''), attr_ilvl = Some (PInt 85),
                                  attr_quantity = Some (PInt 0)\<rparr>)] ''005Sword'' = None
   \<and> upload_stash
        [[\<lparr>row_name = Some (PStr ''Axe''), row_ilvl = None\<rparr>,
          \<lparr>row_name = Some (PStr ''Sword''), row_ilvl = Some (PInt 95)\<rparr>]]
        [(''015Sword'', \<lparr>attr_item = Some (PStr ''Sword''), attr_ilvl = Some (PInt 85),
                          attr_quantity = Some (PInt 0)\<rparr>)]
      = ([(''015Sword'', \<lparr>attr_item = Some (PStr ''Sword''), attr_ilvl = Some (PInt 85),
                           attr_quantity = Some (PInt 0)\<rparr>)],
         Inl (KeyError ''ilvl''))"
  by (simp add: row_key_Sword_95 upload_row_def)

section \<open>update_table\<close>

lemma update_table_known_key:
  assumes "map_of t item = Some a" and "attr_quantity a = Some (PInt q)"
    and "attr_item a = Some i" and "attr_ilvl a = Some l"
  shows "update_table ((item, e) # rest) t =
           update_table rest
             (AList.update item (a\<lparr>attr_quantity := Some (PInt (q + ui_quantity e))\<rparr>) t)"
  using assms by (simp add: update_item_def add_quantity_def read_entry_def)

lemma update_table_new_key:
  assumes "map_of t item = None"
  shows "update_table ((item, e) # rest) t =
           (AList.update item
              \<lparr>attr_item = None, attr_ilvl = None, attr_quantity = Some (PInt (ui_quantity e))\<rparr> t,
            Inl (KeyError ''item''))"
  using assms
  by (simp add: update_item_def set_quantity_def no_attributes_def read_entry_def)

text \<open>
  C2. The claim is that a key that is not in the table gets a record with \<open>quantity\<close>,
  \<open>ilvl\<close> and \<open>item\<close>. On the empty table and the aggregate of three Swords of level 85 the
  code writes a record that has the quantity 3 and neither \<open>item\<close> nor \<open>ilvl\<close>, and then
  raises \<open>KeyError\<close> when its message reads \<open>response['Attributes']['item']\<close>.
\<close>

theorem update_table_new_key_only_quantity:
  "update_table
     [(''015Sword'', \<lparr>ui_ilvl = PInt 85, ui_item = PStr ''Sword'', ui_quantity = 3\<rparr>)] []
   = ([(''015Sword'', \<lparr>attr_item = None, attr_ilvl = None, attr_quantity = Some (PInt 3)\<rparr>)],
      Inl (KeyError ''item''))"
  by (simp add: update_item_def set_quantity_def no_attributes_def read_entry_def)

section \<open>get_item and find_top_quantity\<close>

text \<open>
  C8. When the key derived from the level and the decoded name is not in the table,
  \<open>get_item\<close> returns the message \<open>Item not in table please try an other.\<close> with the
  decoded name and the level; it does not raise.
\<close>

theorem get_item_not_in_table:
  assumes "create_unique_ilvl_str ilvl (PStr (url_decode unquote item)) = Inr ID"
    and "map_of t ID = None"
  shows "get_item unquote t item ilvl
           = Inr (NotInTable ''Item not in table please try an other.''
                    (url_decode unquote item) ilvl)"
  using assms by (simp add: get_item_def)

theorem get_item_not_in_table_witness:
  "get_item (\<lambda>s. s) [(''005Sword'', no_attributes)] ''Sword'' (PInt 85)
     = Inr (NotInTable ''Item not in table please try an other.'' ''Sword'' (PInt 85))"
proof -
  have k: "create_unique_ilvl_str (PInt 85) (PStr (url_decode (\<lambda>s. s) ''Sword'')) = Inr ''015Sword''"
    by (simp add: url_decode_def key_Sword_85)
  have a: "map_of [(''005Sword'', no_attributes)] ''015Sword'' = None"
    by simp
  show ?thesis
    using get_item_not_in_table [OF k a] by (simp add: url_decode_def)
qed

lemma scan_empty: "scan lim flt [] start = ([], None)"
  by (simp add: scan_def)

text \<open>
  C9. On the empty table \<open>find_top_quantity\<close> returns the message
  \<open>Table is empty , please wait for maintanence\<close>, whatever the number of items asked
  for and whatever the page size; it does not raise.
\<close>

theorem find_top_quantity_empty_table:
  "find_top_quantity lim [] number_of_items
     = Inr (Message ''Table is empty , please wait for maintanence'')"
  by (simp add: find_top_quantity_def scan_all_def scan_empty scan_loop.simps)

section \<open>The pagination loop reads the whole table\<close>








section \<open>reset_table\<close>







section \<open>The ranking after a reset\<close>







text \<open>
  A run on a well-formed table, computed: the reset writes one record, and the ranking
  of a table with positive quantities lists them by key.
\<close>

lemma reset_table_example:
  "reset_table 0
     [(''015Sword'', \<lparr>attr_item = Some (PStr ''Sword''), attr_ilvl = Some (PInt 85),
                       attr_quantity = Some (PInt 3)\<rparr>),
      (''005Sword'', \<lparr>attr_item = Some (PStr ''Sword''), attr_ilvl = Some (PInt 95),
                       attr_quantity = Some (PInt 0)\<rparr>)]
   = ([(''015Sword'', \<lparr>attr_item = Some (PStr ''Sword''), attr_ilvl = Some (PInt 85),
                        attr_quantity = Some (PInt 0)\<rparr>),
       (''005Sword'', \<lparr>attr_item = Some (PStr ''Sword''), attr_ilvl = Some (PInt 95),
                        attr_quantity = Some (PInt 0)\<rparr>)],
      Inr ())"
  by (simp add: reset_table_def scan_all_def scan_def scan_loop.simps append_ids_def
        quantity_positive_def update_item_def set_quantity_def read_entry_def)

lemma find_top_quantity_example:
  "find_top_quantity 0
     [(''015Sword'', \<lparr>attr_item = Some (PStr ''Sword''), attr_ilvl = Some (PInt 85),
                       attr_quantity = Some (PInt 3)\<rparr>),
      (''005Sword'', \<lparr>attr_item = Some (PStr ''Sword''), attr_ilvl = Some (PInt 95),
                       attr_quantity = Some (PInt 2)\<rparr>)] 4
   = Inr (JsonList [\<lparr>lvl_item = PStr ''Sword'', lvl_ilvl = PInt 95, lvl_quantity = PInt 2\<rparr>,
                    \<lparr>lvl_item = PStr ''Sword'', lvl_ilvl = PInt 85, lvl_quantity = PInt 3\<rparr>])"
  by (simp add: find_top_quantity_def scan_all_def scan_def scan_loop.simps read_entry_def)

end
